theory Spec2Isabelle
  imports Complex_Main "HOL-Library.AList"
begin

section \<open>The investment simulator: session state, pages and handlers\<close>

text \<open>
  The program is one script (app.py) that the UI framework runs once per user action.
  Its state is the session state: the logged-in user, the cash balance, the holdings
  (a Python dict from symbol to a dict with the keys qty and avg_price) and the watchlist
  (a Python list). Every page of the script is modelled as a function that takes the
  session state and the values the widgets returned in that run, and gives back what the
  page displayed together with the new session state.

  Modelling conventions.
  \<^item> Python floats (cash, prices, average prices) are exact rationals: \<open>+\<close>, \<open>-\<close>,
    \<open>*\<close> and \<open>/\<close> carry no representation error, and \<open>round(x, 2)\<close> is rounding
    to the nearest multiple of 1/100. Where the exact value lies halfway between two
    multiples, Python's choice depends on the binary float that stands for it; the model
    takes the even neighbour there, and what is stated about a rounded value is only
    that it is a nearest multiple of 1/100 (\<open>rounded_2_places\<close>).
  \<^item> Python ints (quantities) are \<open>int\<close>.
  \<^item> Strings are byte strings; \<open>upper\<close> maps the ASCII letters a-z to A-Z.
  \<^item> A dict is an association list in insertion order with distinct keys:
    assignment to a key is \<open>AList.update\<close> (in place for an old key, at the end for a
    new one), \<open>del\<close> is \<open>AList.delete\<close>, \<open>get\<close> is \<open>map_of\<close>.
  \<^item> The market-data library is a parameter of the model.
\<close>

subsection \<open>Numbers and strings of the host language\<close>

definition round_half_even :: "rat \<Rightarrow> int" where
  "round_half_even x =
     (let f = \<lfloor>x\<rfloor>; d = x - of_int f
      in if d < 1 / 2 then f
         else if 1 / 2 < d then f + 1
         else if even f then f else f + 1)"

text \<open>\<open>round(x, 2)\<close>\<close>

definition round2 :: "rat \<Rightarrow> rat" where
  "round2 x = of_int (round_half_even (x * 100)) / 100"

text \<open>
  \<open>rounded_2_places x a\<close>: \<open>a\<close> is \<open>x\<close> rounded to 2 decimal places, a multiple of
  1/100 that is at most half of 1/100 away from \<open>x\<close>. Halfway between two multiples
  both neighbours qualify.
\<close>

definition rounded_2_places :: "rat \<Rightarrow> rat \<Rightarrow> bool" where
  "rounded_2_places x a = (of_int \<lfloor>a * 100\<rfloor> = a * 100 \<and> \<bar>a - x\<bar> \<le> 1 / 200)"

text \<open>\<open>str.upper()\<close> on ASCII.\<close>

definition upper_char :: "char \<Rightarrow> char" where
  "upper_char c =
     (let n = (of_char c :: nat)
      in if 97 \<le> n \<and> n \<le> 122 then char_of (n - 32) else c)"

definition upper :: "string \<Rightarrow> string" where
  "upper s = map upper_char s"

text \<open>\<open>str.strip()\<close>: the ASCII whitespace characters are 9-13, 28-31 and 32.\<close>

definition is_space :: "char \<Rightarrow> bool" where
  "is_space c =
     (let n = (of_char c :: nat)
      in (9 \<le> n \<and> n \<le> 13) \<or> (28 \<le> n \<and> n \<le> 32))"

definition strip :: "string \<Rightarrow> string" where
  "strip s = rev (dropWhile is_space (rev (dropWhile is_space s)))"

datatype py_error = KeyError | ZeroDivisionError | NameError | ValueError | IndexError

subsection \<open>Session state (lines 64-75)\<close>

text \<open>One entry of holdings: \<open>{"qty": ..., "avg_price": ...}\<close>.\<close>

record position =
  qty :: int
  avg_price :: rat

record account =
  user :: "string option"
  cash :: rat
  holdings :: "(string \<times> position) list"
  watchlist :: "string list"

definition session_defaults :: account where
  "session_defaults = \<lparr>user = None, cash = 10000, holdings = [], watchlist = []\<rparr>"

subsection \<open>The market-data library and the cached fetches (lines 80-114)\<close>

text \<open>
  A data frame is reduced to what the script reads: the name of its index, the names of
  its columns and the values of the Close column, one per row.
\<close>

record dataframe =
  index_name :: string
  col_names :: "string list"
  close_col :: "rat list"

text \<open>
  \<open>ticker_history yfs symbol period interval\<close> is \<open>yf.Ticker(symbol).history(...)\<close> and
  \<open>ticker_info yfs symbol\<close> is \<open>yf.Ticker(symbol).info\<close>; \<open>None\<close> stands for a raised
  exception.
\<close>

record yfinance =
  ticker_history :: "string \<Rightarrow> string \<Rightarrow> string \<Rightarrow> dataframe option"
  ticker_info :: "string \<Rightarrow> (string \<Rightarrow> string option) option"

definition df_empty :: "dataframe \<Rightarrow> bool" where
  "df_empty df = (close_col df = [] \<or> col_names df = [])"

definition reset_index :: "dataframe \<Rightarrow> dataframe" where
  "reset_index df = df\<lparr>col_names := index_name df # col_names df\<rparr>"

text \<open>\<open>series.iloc[-1]\<close>\<close>

definition iloc_last :: "rat list \<Rightarrow> py_error + rat" where
  "iloc_last xs = (if xs = [] then Inl IndexError else Inr (last xs))"

definition fetch_history :: "yfinance \<Rightarrow> string \<Rightarrow> string \<Rightarrow> string \<Rightarrow> dataframe option" where
  "fetch_history yfs symbol period interval =
     (case ticker_history yfs symbol period interval of
        None \<Rightarrow> None
      | Some df \<Rightarrow>
          if df_empty df then None
          else
            let df1 = reset_index df
            in if \<not> set [''Open'', ''High'', ''Low'', ''Close'', ''Volume'', ''Date'']
                      \<subseteq> set (col_names df1)
               then None
               else Some (df1\<lparr>col_names :=
                                [''Date'', ''Open'', ''High'', ''Low'', ''Close'', ''Volume'']\<rparr>))"

record quote =
  q_symbol :: string
  q_price :: rat
  q_change :: rat
  q_pct :: rat
  q_name :: string

text \<open>\<open>a or b\<close> on an optional string and a string.\<close>

definition py_or :: "string option \<Rightarrow> string \<Rightarrow> string" where
  "py_or a b = (case a of None \<Rightarrow> b | Some s \<Rightarrow> if s = [] then b else s)"

definition fetch_quote :: "yfinance \<Rightarrow> string \<Rightarrow> quote option" where
  "fetch_quote yfs symbol =
     (case ticker_history yfs symbol ''2d'' ''1d'' of
        None \<Rightarrow> None
      | Some hist \<Rightarrow>
          if df_empty hist then None
          else if ''Close'' \<notin> set (col_names hist) then None
          else
            (case iloc_last (close_col hist) of
               Inl e \<Rightarrow> None
             | Inr price \<Rightarrow>
                 let cl = close_col hist;
                     prev = (if 1 < length cl then cl ! (length cl - 2) else price);
                     change = round2 (price - prev);
                     pct = (if prev \<noteq> 0 then round2 (change / prev * 100) else 0);
                     name = (case ticker_info yfs symbol of
                               None \<Rightarrow> []
                             | Some d \<Rightarrow> py_or (d ''shortName'') (py_or (d ''longName'') []))
                 in Some \<lparr>q_symbol = upper symbol, q_price = round2 price,
                           q_change = change, q_pct = pct, q_name = name\<rparr>))"

subsection \<open>What a page shows\<close>

datatype notice =
    Welcome string
  | Please_enter_a_valid_username
  | Please_log_in
  | Enter_a_symbol
  | Symbol_not_found
  | Insufficient_funds
  | Bought int string rat rat
  | No_holdings_to_sell
  | Could_not_fetch_price
  | Sold int string rat rat
  | Symbol_not_found_or_no_data
  | Added_to_watchlist string
  | Already_in_watchlist
  | Cannot_fetch_price_to_buy
  | Insufficient_cash
  | Bought_from_search int string rat
  | Your_watchlist_is_empty
  | Removed string

text \<open>
  How a handler ends: it shows nothing, shows a message, shows a message and asks for a
  rerun (\<open>st.rerun()\<close>), shows a message and stops the script (\<open>st.stop()\<close>), or raises.
\<close>

datatype outcome =
    Silent
  | Shown notice
  | Shown_rerun notice
  | Shown_stop notice
  | Raised py_error

subsection \<open>Sidebar and login (lines 187-219)\<close>

definition sidebar_pages :: "account \<Rightarrow> string list" where
  "sidebar_pages st =
     (if user st = None then [''Login'']
      else [''Dashboard'', ''Buy'', ''Sell'', ''Search'', ''Watchlist''])"

definition logout :: "account \<Rightarrow> outcome \<times> account" where
  "logout st = (if user st = None then (Silent, st) else (Silent, st\<lparr>user := None\<rparr>))"

definition login_page :: "account \<Rightarrow> string \<Rightarrow> bool \<Rightarrow> outcome \<times> account" where
  "login_page st username clicked =
     (if clicked then
        (if username \<noteq> [] \<and> strip username \<noteq> []
         then (Shown_rerun (Welcome (strip username)), st\<lparr>user := Some (strip username)\<rparr>)
         else (Shown Please_enter_a_valid_username, st))
      else (Silent, st))"

text \<open>\<open>require_login\<close> reports whether the script goes on.\<close>

definition require_login :: "account \<Rightarrow> bool" where
  "require_login st = (user st \<noteq> None)"

subsection \<open>Dashboard (lines 224-254)\<close>

definition holding_value :: "yfinance \<Rightarrow> string \<times> position \<Rightarrow> rat" where
  "holding_value yfs h =
     (case h of (symb, pos) \<Rightarrow>
        let cur_price = (case fetch_quote yfs symb of None \<Rightarrow> None | Some q \<Rightarrow> Some (q_price q))
        in round2 (case cur_price of
                     None \<Rightarrow> 0
                   | Some p \<Rightarrow> if p \<noteq> 0 then p * of_int (qty pos) else 0))"

definition total_value :: "yfinance \<Rightarrow> account \<Rightarrow> rat" where
  "total_value yfs st = foldl (\<lambda>total h. total + holding_value yfs h) (cash st) (holdings st)"

definition dashboard_page :: "account \<Rightarrow> yfinance \<Rightarrow> outcome + rat" where
  "dashboard_page st yfs =
     (if \<not> require_login st then Inl (Shown_stop Please_log_in)
      else Inr (total_value yfs st))"

subsection \<open>Buy (lines 259-291)\<close>

text \<open>Lines 278-291: the trade once the price is known.\<close>

definition buy_trade :: "account \<Rightarrow> string \<Rightarrow> int \<Rightarrow> rat \<Rightarrow> outcome \<times> account" where
  "buy_trade st buy_sym buy_qty price =
     (let cost = price * of_int buy_qty
      in if cash st < cost then (Shown Insufficient_funds, st)
         else
           (case map_of (holdings st) buy_sym of
              Some cur \<Rightarrow>
                let total_shares = qty cur + buy_qty
                in if total_shares = 0 then (Raised ZeroDivisionError, st)
                   else
                     let avg = (avg_price cur * of_int (qty cur) + price * of_int buy_qty)
                                 / of_int total_shares
                     in (Shown (Bought buy_qty buy_sym price cost),
                         st\<lparr>holdings := AList.update buy_sym
                                            \<lparr>qty = total_shares, avg_price = round2 avg\<rparr>
                                            (holdings st),
                            cash := cash st - cost\<rparr>)
            | None \<Rightarrow>
                (Shown (Bought buy_qty buy_sym price cost),
                 st\<lparr>holdings := AList.update buy_sym
                                    \<lparr>qty = buy_qty, avg_price = round2 price\<rparr>
                                    (holdings st),
                    cash := cash st - cost\<rparr>)))"

definition buy_page :: "account \<Rightarrow> string \<Rightarrow> int \<Rightarrow> bool \<Rightarrow> yfinance \<Rightarrow> outcome \<times> account" where
  "buy_page st text_input buy_qty clicked yfs =
     (if \<not> require_login st then (Shown_stop Please_log_in, st)
      else
        let buy_sym = upper text_input
        in if \<not> clicked then (Silent, st)
           else if buy_sym = [] then (Shown Enter_a_symbol, st)
           else
             (case fetch_history yfs buy_sym ''5d'' ''1d'' of
                None \<Rightarrow> (Shown Symbol_not_found, st)
              | Some hist \<Rightarrow>
                  (case iloc_last (close_col hist) of
                     Inl e \<Rightarrow> (Raised e, st)
                   | Inr price \<Rightarrow> buy_trade st buy_sym buy_qty price)))"

subsection \<open>Sell (lines 296-317)\<close>

text \<open>
  Lines 311-317: the trade once the price is known. The cash is credited before the
  position is read, and nothing compares the quantity with the position.
\<close>

definition sell_trade :: "account \<Rightarrow> string \<Rightarrow> int \<Rightarrow> rat \<Rightarrow> outcome \<times> account" where
  "sell_trade st sel sell_qty price =
     (let proceeds = price * of_int sell_qty;
          st1 = st\<lparr>cash := cash st + proceeds\<rparr>
      in case map_of (holdings st1) sel of
           None \<Rightarrow> (Raised KeyError, st1)
         | Some cur \<Rightarrow>
             let new_qty = qty cur - sell_qty;
                 st2 = st1\<lparr>holdings := AList.update sel (cur\<lparr>qty := new_qty\<rparr>) (holdings st1)\<rparr>;
                 st3 = (if new_qty = 0
                        then st2\<lparr>holdings := AList.delete sel (holdings st2)\<rparr>
                        else st2)
             in (Shown (Sold sell_qty sel price proceeds), st3))"

definition sell_page :: "account \<Rightarrow> string \<Rightarrow> int \<Rightarrow> bool \<Rightarrow> yfinance \<Rightarrow> outcome \<times> account" where
  "sell_page st sel sell_qty clicked yfs =
     (if \<not> require_login st then (Shown_stop Please_log_in, st)
      else if holdings st = [] then (Shown No_holdings_to_sell, st)
      else
        (case map_of (holdings st) sel of
           None \<Rightarrow> (Raised KeyError, st)
         | Some cur \<Rightarrow>
             if \<not> clicked then (Silent, st)
             else
               (case fetch_history yfs sel ''5d'' ''1d'' of
                  None \<Rightarrow> (Shown Could_not_fetch_price, st)
                | Some hist \<Rightarrow>
                    (case iloc_last (close_col hist) of
                       Inl e \<Rightarrow> (Raised e, st)
                     | Inr price \<Rightarrow> sell_trade st sel sell_qty price))))"

subsection \<open>Search (lines 322-384)\<close>

text \<open>Lines 357-362.\<close>

definition search_add_to_watchlist :: "account \<Rightarrow> string \<Rightarrow> outcome \<times> account" where
  "search_add_to_watchlist st search_sym =
     (let s = upper search_sym
      in if s \<notin> set (watchlist st)
         then (Shown (Added_to_watchlist s), st\<lparr>watchlist := watchlist st @ [s]\<rparr>)
         else (Shown Already_in_watchlist, st))"

text \<open>Lines 371-384.\<close>

definition search_buy_trade :: "account \<Rightarrow> string \<Rightarrow> int \<Rightarrow> rat \<Rightarrow> outcome \<times> account" where
  "search_buy_trade st search_sym buy_q price =
     (let cost = price * of_int buy_q
      in if cash st < cost then (Shown Insufficient_cash, st)
         else
           (case map_of (holdings st) search_sym of
              Some cur \<Rightarrow>
                let total_shares = qty cur + buy_q
                in if total_shares = 0 then (Raised ZeroDivisionError, st)
                   else
                     let avg = (avg_price cur * of_int (qty cur) + price * of_int buy_q)
                                 / of_int total_shares
                     in (Shown (Bought_from_search buy_q search_sym price),
                         st\<lparr>holdings := AList.update search_sym
                                            \<lparr>qty = total_shares, avg_price = round2 avg\<rparr>
                                            (holdings st),
                            cash := cash st - cost\<rparr>)
            | None \<Rightarrow>
                (Shown (Bought_from_search buy_q search_sym price),
                 st\<lparr>holdings := AList.update search_sym
                                    \<lparr>qty = buy_q, avg_price = round2 price\<rparr>
                                    (holdings st),
                    cash := cash st - cost\<rparr>)))"

text \<open>Lines 366-384.\<close>

definition search_buy :: "account \<Rightarrow> string \<Rightarrow> int \<Rightarrow> yfinance \<Rightarrow> outcome \<times> account" where
  "search_buy st search_sym buy_q yfs =
     (case fetch_history yfs search_sym ''5d'' ''1d'' of
        None \<Rightarrow> (Shown Cannot_fetch_price_to_buy, st)
      | Some hist \<Rightarrow>
          (case iloc_last (close_col hist) of
             Inl e \<Rightarrow> (Raised e, st)
           | Inr price \<Rightarrow> search_buy_trade st search_sym buy_q price))"

text \<open>
  The page: the three buttons are inputs. What the two inner handlers end with is listed
  in the order of the script.
\<close>

definition search_page ::
  "account \<Rightarrow> string \<Rightarrow> string \<Rightarrow> string \<Rightarrow> bool \<Rightarrow> bool \<Rightarrow> int \<Rightarrow> bool \<Rightarrow> yfinance
     \<Rightarrow> outcome list \<times> account" where
  "search_page st text_input period interval lookup add_clicked buy_q buy_clicked yfs =
     (if \<not> require_login st then ([Shown_stop Please_log_in], st)
      else
        let search_sym = upper text_input
        in if \<not> lookup then ([], st)
           else if search_sym = [] then ([Shown Enter_a_symbol], st)
           else
             (case fetch_history yfs search_sym period interval of
                None \<Rightarrow> ([Shown Symbol_not_found_or_no_data], st)
              | Some df \<Rightarrow>
                  if df_empty df then ([Shown Symbol_not_found_or_no_data], st)
                  else
                    let r1 = (if add_clicked then search_add_to_watchlist st search_sym
                              else (Silent, st));
                        r2 = (if buy_clicked then search_buy (snd r1) search_sym buy_q yfs
                              else (Silent, snd r1))
                    in ([fst r1, fst r2], snd r2)))"

subsection \<open>Watchlist (lines 389-421)\<close>

text \<open>Lines 395-399.\<close>

definition watchlist_add :: "account \<Rightarrow> string \<Rightarrow> outcome \<times> account" where
  "watchlist_add st add_sym =
     (if add_sym \<noteq> [] \<and> add_sym \<notin> set (watchlist st)
      then (Shown (Added_to_watchlist add_sym), st\<lparr>watchlist := watchlist st @ [add_sym]\<rparr>)
      else if add_sym \<in> set (watchlist st) then (Shown Already_in_watchlist, st)
      else (Silent, st))"

text \<open>\<open>list.remove(s)\<close>\<close>

definition list_remove :: "string list \<Rightarrow> string \<Rightarrow> py_error + string list" where
  "list_remove xs s = (if s \<in> set xs then Inr (remove1 s xs) else Inl ValueError)"

text \<open>
  Lines 417-421: one button per entry of a copy of the watchlist; \<open>pressed s\<close> is what the
  button of \<open>s\<close> returned. The first pressed button removes its entry and reruns the script.
\<close>

fun remove_buttons :: "(string \<Rightarrow> bool) \<Rightarrow> string list \<Rightarrow> account \<Rightarrow> outcome \<times> account" where
  "remove_buttons pressed [] st = (Silent, st)"
| "remove_buttons pressed (s # rest) st =
     (if pressed s then
        (case list_remove (watchlist st) s of
           Inl e \<Rightarrow> (Raised e, st)
         | Inr w \<Rightarrow> (Shown_rerun (Removed s), st\<lparr>watchlist := w\<rparr>))
      else remove_buttons pressed rest st)"

definition watchlist_page ::
  "account \<Rightarrow> string \<Rightarrow> bool \<Rightarrow> (string \<Rightarrow> bool) \<Rightarrow> outcome list \<times> account" where
  "watchlist_page st text_input add_clicked pressed =
     (if \<not> require_login st then ([Shown_stop Please_log_in], st)
      else
        let add_sym = upper text_input;
            r1 = (if add_clicked then watchlist_add st add_sym else (Silent, st))
        in if watchlist (snd r1) = [] then ([fst r1, Shown Your_watchlist_is_empty], snd r1)
           else
             let r2 = remove_buttons pressed (watchlist (snd r1)) (snd r1)
             in ([fst r1, fst r2], snd r2))"

subsection \<open>The navigation dispatch (lines 204, 224, 259, 296, 322, 389)\<close>

datatype py_value = Str string | Other

text \<open>
  The names bound at module level when the chain of page tests is evaluated: the imports,
  the four functions, \<open>page\<close>, and \<open>username\<close> when the login block has run.
\<close>

definition module_names :: "string \<Rightarrow> string \<Rightarrow> (string \<Rightarrow> py_value option)" where
  "module_names page username =
     map_of ([(''st'', Other), (''yf'', Other), (''pd'', Other), (''go'', Other),
              (''datetime'', Other), (''Optional'', Other),
              (''fetch_history'', Other), (''fetch_quote'', Other),
              (''plot_candlestick'', Other), (''require_login'', Other),
              (''page'', Str page)]
             @ (if page = ''Login'' then [(''username'', Str username)] else []))"

datatype block =
  Dashboard_block | Buy_block | Sell_block | Search_block | Watchlist_block | No_block

definition dispatch :: "(string \<Rightarrow> py_value option) \<Rightarrow> py_error + block" where
  "dispatch names =
     (case names ''page'' of
        None \<Rightarrow> Inl NameError
      | Some page \<Rightarrow>
          if page = Str ''Dashboard'' then Inr Dashboard_block
          else if page = Str ''Buy'' then Inr Buy_block
          else if page = Str ''Sell'' then Inr Sell_block
          else if page = Str ''Search'' then Inr Search_block
          else
            (case names ''nav_choice'' of
               None \<Rightarrow> Inl NameError
             | Some nav_choice \<Rightarrow>
                 if nav_choice = Str ''Watchlist'' then Inr Watchlist_block else Inr No_block))"

text \<open>
  One run of the script with the page Watchlist chosen in the sidebar (lines 199 and
  224-421): the chain of page tests decides whether the Watchlist block runs.
\<close>

definition watchlist_script ::
  "account \<Rightarrow> string \<Rightarrow> bool \<Rightarrow> (string \<Rightarrow> bool) \<Rightarrow> outcome list \<times> account" where
  "watchlist_script st text_input add_clicked pressed =
     (if ''Watchlist'' \<notin> set (sidebar_pages st) then ([], st)
      else
        (case dispatch (module_names ''Watchlist'' []) of
           Inl e \<Rightarrow> ([Raised e], st)
         | Inr b \<Rightarrow>
             if b = Watchlist_block then watchlist_page st text_input add_clicked pressed
             else ([], st)))"

subsection \<open>Widgets and runs of the script\<close>

text \<open>
  \<open>selectbox options v\<close>: \<open>v\<close> is a value \<open>st.selectbox\<close> can return, one of its options.
  \<open>number_input min_value max_value v\<close>: \<open>v\<close> is a value \<open>st.number_input\<close> can
  return, within its bounds.
\<close>

definition selectbox :: "string list \<Rightarrow> string \<Rightarrow> bool" where
  "selectbox options v = (v \<in> set options)"

definition number_input :: "int \<Rightarrow> int option \<Rightarrow> int \<Rightarrow> bool" where
  "number_input min_value max_value v =
     (min_value \<le> v \<and> (case max_value of None \<Rightarrow> True | Some m \<Rightarrow> v \<le> m))"

text \<open>
  What \<open>st.number_input\<close> returns after the user has typed \<open>entered\<close> into it: the
  entry when it lies within the bounds; an entry outside the bounds is not taken over and
  the input keeps its value, which is the default \<open>value\<close> of the call as long as no
  other entry was made.
\<close>

definition number_input_value :: "int \<Rightarrow> int option \<Rightarrow> int \<Rightarrow> int \<Rightarrow> int" where
  "number_input_value min_value max_value value entered =
     (if number_input min_value max_value entered then entered else value)"

text \<open>
  One run of the script on a page, with the values its widgets return. The widgets
  return only options of the select box and quantities within the bounds of the quantity
  input (\<open>number_input_value\<close> of whatever was typed is such a quantity), so a run with
  other values does not happen; nor does a run on a page the sidebar does not offer.
  The Watchlist page is run as if the dispatch reached it.
\<close>

datatype event =
    Login_run string bool
  | Logout_click
  | Buy_run string int bool yfinance
  | Sell_run string int bool yfinance
  | Search_run string string string bool bool int bool yfinance
  | Watchlist_run string bool "string \<Rightarrow> bool"

definition app_step :: "account \<Rightarrow> event \<Rightarrow> account" where
  "app_step st ev =
     (case ev of
        Login_run username clicked \<Rightarrow>
          if ''Login'' \<in> set (sidebar_pages st) then snd (login_page st username clicked) else st
      | Logout_click \<Rightarrow> snd (logout st)
      | Buy_run text_input buy_qty clicked yfs \<Rightarrow>
          if ''Buy'' \<in> set (sidebar_pages st) \<and> number_input 1 None buy_qty
          then snd (buy_page st text_input buy_qty clicked yfs) else st
      | Sell_run sel sell_qty clicked yfs \<Rightarrow>
          if ''Sell'' \<in> set (sidebar_pages st) \<and>
             (holdings st = [] \<or>
              (selectbox (map fst (holdings st)) sel \<and>
               (case map_of (holdings st) sel of
                  None \<Rightarrow> False
                | Some cur \<Rightarrow> number_input 1 (Some (qty cur)) sell_qty)))
          then snd (sell_page st sel sell_qty clicked yfs) else st
      | Search_run text_input period interval lookup add_clicked buy_q buy_clicked yfs \<Rightarrow>
          if ''Search'' \<in> set (sidebar_pages st) \<and>
             selectbox [''1y'', ''6mo'', ''3mo'', ''1mo'', ''5d''] period \<and>
             selectbox (if period = ''5d'' then [''1m'', ''5m'', ''15m'', ''1h'']
                        else [''1d'', ''1wk'']) interval \<and>
             number_input 1 None buy_q
          then snd (search_page st text_input period interval lookup add_clicked
                      buy_q buy_clicked yfs)
          else st
      | Watchlist_run text_input add_clicked pressed \<Rightarrow>
          if ''Watchlist'' \<in> set (sidebar_pages st)
          then snd (watchlist_page st text_input add_clicked pressed) else st)"

definition run :: "event list \<Rightarrow> account" where
  "run evs = foldl app_step session_defaults evs"

subsection \<open>Sequences of buys of one symbol\<close>

definition is_bought :: "outcome \<Rightarrow> bool" where
  "is_bought r = (case r of Shown (Bought q s p c) \<Rightarrow> True | _ \<Rightarrow> False)"

text \<open>
  The buys \<open>(quantity, price)\<close> in order; \<open>None\<close> as soon as one of them is not a
  quantity of the quantity input or does not succeed.
\<close>

fun buy_all :: "account \<Rightarrow> string \<Rightarrow> (int \<times> rat) list \<Rightarrow> account option" where
  "buy_all st s [] = Some st"
| "buy_all st s ((q, p) # bs) =
     (if number_input 1 None q \<and> is_bought (fst (buy_trade st s q p))
      then buy_all (snd (buy_trade st s q p)) s bs
      else None)"

text \<open>The volume-weighted mean of the purchase prices, as the specification words it.\<close>

definition volume_weighted_mean :: "(int \<times> rat) list \<Rightarrow> rat" where
  "volume_weighted_mean bs =
     (\<Sum>(q, p)\<leftarrow>bs. of_int q * p) / of_int (\<Sum>(q, p)\<leftarrow>bs. q)"

subsection \<open>A market for the examples\<close>

text \<open>Every symbol has a one-row daily history with the close \<open>p\<close>, and no info.\<close>

definition one_close :: "rat \<Rightarrow> yfinance" where
  "one_close p =
     \<lparr>ticker_history = (\<lambda>symbol period interval.
        Some \<lparr>index_name = ''Date'',
              col_names = [''Open'', ''High'', ''Low'', ''Close'', ''Volume'',
                           ''Dividends'', ''Stock Splits''],
              close_col = [p]\<rparr>),
      ticker_info = (\<lambda>symbol. None)\<rparr>"

text \<open>
  The symbols of \<open>table\<close> have the closes listed there, oldest first; any other
  symbol has an empty history.
\<close>

definition listed :: "(string \<times> rat list) list \<Rightarrow> yfinance" where
  "listed table =
     \<lparr>ticker_history = (\<lambda>symbol period interval.
        case map_of table symbol of
          None \<Rightarrow> Some \<lparr>index_name = ''Date'', col_names = [], close_col = []\<rparr>
        | Some closes \<Rightarrow>
            Some \<lparr>index_name = ''Date'',
                  col_names = [''Open'', ''High'', ''Low'', ''Close'', ''Volume'',
                               ''Dividends'', ''Stock Splits''],
                  close_col = closes\<rparr>),
      ticker_info = (\<lambda>symbol. None)\<rparr>"

section \<open>Facts about rounding and upper-casing\<close>

lemma round_half_even_of_int: "round_half_even (of_int k) = k"
  by (simp add: round_half_even_def)

lemma round_half_even_bounds: "\<bar>of_int (round_half_even x) - x\<bar> \<le> 1 / 2"
proof -
  have "of_int \<lfloor>x\<rfloor> \<le> x" "x < of_int \<lfloor>x\<rfloor> + 1"
    by linarith+
  then show ?thesis
    by (auto simp: round_half_even_def Let_def abs_le_iff)
qed

lemma round2_error: "\<bar>round2 x - x\<bar> \<le> 1 / 200"
proof -
  have "\<bar>of_int (round_half_even (x * 100)) - x * 100\<bar> \<le> 1 / 2"
    by (rule round_half_even_bounds)
  then show ?thesis
    by (simp add: round2_def abs_le_iff field_simps)
qed

lemma round2_cents: "round2 (of_int k / 100) = of_int k / 100"
  by (simp add: round2_def round_half_even_of_int)

lemma round2_times_int: "round2 (round2 x * of_int n) = round2 x * of_int n"
proof -
  have "round2 x * of_int n = of_int (round_half_even (x * 100) * n) / 100"
    by (simp add: round2_def)
  then show ?thesis
    by (simp only: round2_cents)
qed

lemma upper_char_idem: "upper_char (upper_char c) = upper_char c"
proof (cases "97 \<le> (of_char c :: nat) \<and> (of_char c :: nat) \<le> 122")
  case True
  then have "(of_char c - 32 :: nat) mod 256 = of_char c - 32"
    by (intro mod_less) linarith
  then have eq: "(of_char (char_of (of_char c - 32 :: nat)) :: nat) = of_char c - 32"
    by simp
  from True have out: "\<not> (97 \<le> (of_char c - 32 :: nat) \<and> (of_char c - 32 :: nat) \<le> 122)"
    by linarith
  from True have "upper_char c = char_of (of_char c - 32 :: nat)"
    by (simp add: upper_char_def Let_def)
  moreover have "upper_char (char_of (of_char c - 32 :: nat)) = char_of (of_char c - 32 :: nat)"
    unfolding upper_char_def Let_def eq using out by (simp only: if_False)
  ultimately show ?thesis
    by simp
next
  case False
  then have "upper_char c = c"
    unfolding upper_char_def Let_def by (rule if_not_P)
  then show ?thesis
    by simp
qed

lemma upper_idem: "upper (upper s) = upper s"
  by (simp add: upper_def upper_char_idem)

section \<open>Buying\<close>

text \<open>
  Claim C1. Whenever the cash is less than quantity times unit price, the buy fails with
  the insufficient-funds message and the whole session state (cash, holdings, watchlist)
  is unchanged, in the handler of the Buy page and in the one of the Search page;
  consequently a buy never takes a non-negative cash balance below zero.
\<close>

theorem buy_insufficient_funds:
  "(cash st < price * of_int n \<longrightarrow>
      buy_trade st s n price = (Shown Insufficient_funds, st) \<and>
      search_buy_trade st s n price = (Shown Insufficient_cash, st)) \<and>
   (0 \<le> cash st \<longrightarrow>
      0 \<le> cash (snd (buy_trade st s n price)) \<and>
      0 \<le> cash (snd (search_buy_trade st s n price)))"
  by (auto simp: buy_trade_def search_buy_trade_def Let_def split: option.splits)

text \<open>The scenario of the specification: cash 100, five shares at 30.\<close>

theorem buy_insufficient_funds_witness:
  "cash \<lparr>user = Some ''u'', cash = 100, holdings = [], watchlist = []\<rparr> < 30 * of_int 5 \<and>
   buy_trade \<lparr>user = Some ''u'', cash = 100, holdings = [], watchlist = []\<rparr> ''AAPL'' 5 30
     = (Shown Insufficient_funds,
        \<lparr>user = Some ''u'', cash = 100, holdings = [], watchlist = []\<rparr>) \<and>
   search_buy_trade \<lparr>user = Some ''u'', cash = 100, holdings = [], watchlist = []\<rparr> ''AAPL'' 5 30
     = (Shown Insufficient_cash,
        \<lparr>user = Some ''u'', cash = 100, holdings = [], watchlist = []\<rparr>) \<and>
   0 \<le> cash (snd (buy_trade \<lparr>user = Some ''u'', cash = 100, holdings = [], watchlist = []\<rparr>
                      ''AAPL'' 3 30))"
  using buy_insufficient_funds
          [of "\<lparr>user = Some ''u'', cash = 100, holdings = [], watchlist = []\<rparr>" 30 5 "''AAPL''"]
        buy_insufficient_funds
          [of "\<lparr>user = Some ''u'', cash = 100, holdings = [], watchlist = []\<rparr>" 30 3 "''AAPL''"]
  by simp

text \<open>On the Buy page the trade runs with the upper-cased symbol and the last close.\<close>

lemma buy_page_trade:
  "require_login st \<Longrightarrow> clicked \<Longrightarrow> upper t \<noteq> [] \<Longrightarrow>
   fetch_history yfs (upper t) ''5d'' ''1d'' = Some hist \<Longrightarrow>
   iloc_last (close_col hist) = Inr price \<Longrightarrow>
   buy_page st t n clicked yfs = buy_trade st (upper t) n price"
  by (simp add: buy_page_def)

lemma round2_503_500: "round2 (503 / 500) = 101 / 100"
  by code_simp

lemma round2_265_2: "round2 (265 / 2) = 265 / 2"
  by code_simp

lemma round2_rounded: "rounded_2_places x (round2 x)"
  using round2_error [of x] by (simp add: rounded_2_places_def round2_def)

text \<open>Away from the halfway points the rounded value is determined.\<close>

lemma rounded_2_places_unique:
  assumes "rounded_2_places x a" and "rounded_2_places x b" and "\<bar>a - x\<bar> < 1 / 200"
  shows "a = b"
proof -
  have ia: "a * 100 = of_int \<lfloor>a * 100\<rfloor>"
    using assms(1) unfolding rounded_2_places_def by metis
  have ib: "b * 100 = of_int \<lfloor>b * 100\<rfloor>"
    using assms(2) unfolding rounded_2_places_def by metis
  have eb: "\<bar>b - x\<bar> \<le> 1 / 200"
    using assms(2) unfolding rounded_2_places_def by metis
  from eb assms(3) have "\<bar>a - b\<bar> < 1 / 100"
    by linarith
  then have "\<bar>a * 100 - b * 100\<bar> < 1"
    by linarith
  then have "\<bar>of_int (\<lfloor>a * 100\<rfloor> - \<lfloor>b * 100\<rfloor>) :: rat\<bar> < 1"
    using ia ib by simp
  then have "\<bar>\<lfloor>a * 100\<rfloor> - \<lfloor>b * 100\<rfloor>\<bar> < 1"
    by (metis of_int_abs of_int_less_1_iff)
  then have "\<lfloor>a * 100\<rfloor> = \<lfloor>b * 100\<rfloor>"
    by linarith
  with ia ib have "a * 100 = b * 100"
    by simp
  then show ?thesis
    by simp
qed

text \<open>
  Claim C2, as amended. After a successful buy the cash is debited by exactly quantity
  times unit price. With no position for the symbol before, the new position has the
  bought quantity, and its average price is the unit price rounded to 2 decimal places
  (not the unit price itself). With a position before, the new quantity is the old one
  plus the bought one and the new average price is
  (old average * old quantity + unit price * quantity) / new quantity, rounded to 2
  decimal places. Rounded to 2 decimal places means a nearest multiple of 0.01; which
  neighbour is stored when the value lies exactly halfway is not stated.
\<close>

theorem buy_trade_effect:
  "is_bought (fst (buy_trade st s n p)) \<Longrightarrow>
   cash (snd (buy_trade st s n p)) = cash st - of_int n * p \<and>
   (\<exists>pos. map_of (holdings (snd (buy_trade st s n p))) s = Some pos \<and>
      (case map_of (holdings st) s of
         None \<Rightarrow> qty pos = n \<and> rounded_2_places p (avg_price pos)
       | Some old \<Rightarrow>
           qty pos = qty old + n \<and>
           rounded_2_places
             ((avg_price old * of_int (qty old) + p * of_int n) / of_int (qty old + n))
             (avg_price pos)))"
  by (auto simp: buy_trade_def is_bought_def Let_def update_conv' round2_rounded
           split: option.splits if_splits)

lemma round2_565_4: "round2 (565 / 4) = 565 / 4"
  by code_simp

text \<open>
  The scenario of the specification: five shares at 132.50 from the initial cash, then
  five more at 150.00.
\<close>

theorem buy_trade_effect_witness:
  "is_bought (fst (buy_trade session_defaults ''AAPL'' 5 (265 / 2))) \<and>
   cash (snd (buy_trade session_defaults ''AAPL'' 5 (265 / 2))) = 18675 / 2 \<and>
   map_of (holdings session_defaults) ''AAPL'' = None \<and>
   map_of (holdings (snd (buy_trade session_defaults ''AAPL'' 5 (265 / 2)))) ''AAPL''
     = Some \<lparr>qty = 5, avg_price = 265 / 2\<rparr> \<and>
   rounded_2_places (265 / 2) (265 / 2) \<and>
   is_bought (fst (buy_trade
     \<lparr>user = None, cash = 18675 / 2,
      holdings = [(''AAPL'', \<lparr>qty = 5, avg_price = 265 / 2\<rparr>)], watchlist = []\<rparr>
     ''AAPL'' 5 150)) \<and>
   cash (snd (buy_trade
     \<lparr>user = None, cash = 18675 / 2,
      holdings = [(''AAPL'', \<lparr>qty = 5, avg_price = 265 / 2\<rparr>)], watchlist = []\<rparr>
     ''AAPL'' 5 150)) = 17175 / 2 \<and>
   map_of (holdings (snd (buy_trade
     \<lparr>user = None, cash = 18675 / 2,
      holdings = [(''AAPL'', \<lparr>qty = 5, avg_price = 265 / 2\<rparr>)], watchlist = []\<rparr>
     ''AAPL'' 5 150))) ''AAPL''
     = Some \<lparr>qty = 10, avg_price = 565 / 4\<rparr> \<and>
   rounded_2_places ((265 / 2 * of_int 5 + 150 * of_int 5) / of_int (5 + 5)) (565 / 4)"
proof -
  have b: "is_bought (fst (buy_trade session_defaults ''AAPL'' 5 (265 / 2)))"
    by (simp add: buy_trade_def session_defaults_def is_bought_def)
  have c: "is_bought (fst (buy_trade
     \<lparr>user = None, cash = 18675 / 2,
      holdings = [(''AAPL'', \<lparr>qty = 5, avg_price = 265 / 2\<rparr>)], watchlist = []\<rparr>
     ''AAPL'' 5 150))"
    by (simp add: buy_trade_def is_bought_def Let_def)
  have p1: "map_of (holdings (snd (buy_trade session_defaults ''AAPL'' 5 (265 / 2)))) ''AAPL''
     = Some \<lparr>qty = 5, avg_price = 265 / 2\<rparr>"
    by (simp add: buy_trade_def session_defaults_def Let_def round2_265_2)
  have p2: "map_of (holdings (snd (buy_trade
     \<lparr>user = None, cash = 18675 / 2,
      holdings = [(''AAPL'', \<lparr>qty = 5, avg_price = 265 / 2\<rparr>)], watchlist = []\<rparr>
     ''AAPL'' 5 150))) ''AAPL''
     = Some \<lparr>qty = 10, avg_price = 565 / 4\<rparr>"
    by (simp add: buy_trade_def Let_def round2_565_4)
  show ?thesis
    using b c buy_trade_effect [OF b] buy_trade_effect [OF c]
    by (simp add: p1 p2) (simp add: session_defaults_def)
qed

text \<open>
  The claim as stated fails for a first buy at a unit price with more than two decimal
  places: one share at 1.006 is stored with the average price 1.01.
\<close>

theorem buy_first_average_counterexample:
  "is_bought (fst (buy_trade session_defaults ''X'' 1 (503 / 500))) \<and>
   map_of (holdings session_defaults) ''X'' = None \<and>
   map_of (holdings (snd (buy_trade session_defaults ''X'' 1 (503 / 500)))) ''X''
     = Some \<lparr>qty = 1, avg_price = 101 / 100\<rparr> \<and>
   (101 / 100 :: rat) \<noteq> 503 / 500"
  by (simp add: buy_trade_def session_defaults_def is_bought_def Let_def round2_503_500)

section \<open>The average price over a sequence of buys\<close>

lemma buy_trade_position:
  "is_bought (fst (buy_trade st s n p)) \<Longrightarrow>
   map_of (holdings (snd (buy_trade st s n p))) s =
     Some (case map_of (holdings st) s of
             None \<Rightarrow> \<lparr>qty = n, avg_price = round2 p\<rparr>
           | Some old \<Rightarrow>
               \<lparr>qty = qty old + n,
                avg_price = round2 ((avg_price old * of_int (qty old) + p * of_int n)
                                     / of_int (qty old + n))\<rparr>)"
  by (auto simp: buy_trade_def is_bought_def Let_def update_conv'
           split: option.splits if_splits)

lemma buy_all_quantities:
  "buy_all st s bs = Some st' \<Longrightarrow> \<forall>b\<in>set bs. 1 \<le> fst b"
  by (induction st s bs rule: buy_all.induct) (auto simp: number_input_def split: if_splits)

lemma sum_quantities_nonneg:
  assumes "\<forall>b\<in>set bs. 1 \<le> fst b"
  shows "0 \<le> (\<Sum>(q, p)\<leftarrow>bs. q :: int)"
  using assms by (induction bs) auto

text \<open>
  Replacing the average \<open>m\<close> of the first \<open>Q\<close> shares by its rounding moves the
  mean of all \<open>Q + T\<close> shares by at most half a cent.
\<close>

lemma mean_shift:
  fixes a m S Q T :: rat
  assumes "\<bar>a - m\<bar> \<le> 1 / 200" and "0 < Q" and "0 \<le> T"
  shows "\<bar>(a * Q + S) / (Q + T) - (m * Q + S) / (Q + T)\<bar> \<le> 1 / 200"
proof -
  have pos: "0 < Q + T"
    using assms by linarith
  have "(a * Q + S) / (Q + T) - (m * Q + S) / (Q + T) = (a - m) * (Q / (Q + T))"
    by (simp add: field_simps diff_divide_distrib [symmetric])
  then have "\<bar>(a * Q + S) / (Q + T) - (m * Q + S) / (Q + T)\<bar> = \<bar>a - m\<bar> * (Q / (Q + T))"
    using assms pos by (simp add: abs_mult)
  also have "\<dots> \<le> \<bar>a - m\<bar> * 1"
    using assms pos by (intro mult_left_mono) (simp_all add: field_simps)
  also have "\<dots> \<le> 1 / 200"
    using assms by simp
  finally show ?thesis .
qed

lemma buy_all_bound_from:
  assumes "buy_all st s bs = Some st'"
    and "map_of (holdings st) s = Some cur" and "0 < qty cur"
  shows "\<exists>pos. map_of (holdings st') s = Some pos \<and>
           qty pos = qty cur + (\<Sum>(q, p)\<leftarrow>bs. q) \<and>
           \<bar>avg_price pos -
              (avg_price cur * of_int (qty cur) + (\<Sum>(q, p)\<leftarrow>bs. of_int q * p))
                / of_int (qty cur + (\<Sum>(q, p)\<leftarrow>bs. q))\<bar>
             \<le> of_nat (length bs) / 200"
  using assms
proof (induction bs arbitrary: st cur)
  case Nil
  then show ?case
    by simp
next
  case (Cons b bs)
  obtain q p where b: "b = (q, p)"
    by (cases b)
  let ?st1 = "snd (buy_trade st s q p)"
  let ?Q1 = "qty cur + q"
  let ?m = "(avg_price cur * of_int (qty cur) + p * of_int q) / of_int ?Q1"
  let ?cur1 = "\<lparr>qty = ?Q1, avg_price = round2 ?m\<rparr>"
  let ?S = "\<Sum>(q, p)\<leftarrow>bs. of_int q * p"
  let ?T = "\<Sum>(q, p)\<leftarrow>bs. q"
  from Cons.prems(1) b have q1: "1 \<le> q"
    and bought: "is_bought (fst (buy_trade st s q p))"
    and rest: "buy_all ?st1 s bs = Some st'"
    by (auto simp: number_input_def split: if_splits)
  from buy_trade_position [OF bought] Cons.prems(2)
  have cur1: "map_of (holdings ?st1) s = Some ?cur1"
    by simp
  from q1 Cons.prems(3) have Q1: "0 < ?Q1"
    by simp
  from Cons.IH [OF rest cur1] Q1 obtain pos where
    pos: "map_of (holdings st') s = Some pos" and
    qpos: "qty pos = ?Q1 + ?T" and
    bound: "\<bar>avg_price pos - (round2 ?m * of_int ?Q1 + ?S) / of_int (?Q1 + ?T)\<bar>
              \<le> of_nat (length bs) / 200"
    by auto
  have T: "0 \<le> ?T"
    using buy_all_quantities [OF rest] by (rule sum_quantities_nonneg)
  have "\<bar>(round2 ?m * of_int ?Q1 + ?S) / (of_int ?Q1 + of_int ?T)
          - (?m * of_int ?Q1 + ?S) / (of_int ?Q1 + of_int ?T)\<bar> \<le> 1 / 200"
    using round2_error [of ?m] Q1 T by (intro mean_shift) simp_all
  moreover have "?m * of_int ?Q1 = avg_price cur * of_int (qty cur) + p * of_int q"
    using Q1 by simp
  ultimately have shift:
    "\<bar>(round2 ?m * of_int ?Q1 + ?S) / of_int (?Q1 + ?T)
       - (avg_price cur * of_int (qty cur) + p * of_int q + ?S) / of_int (?Q1 + ?T)\<bar>
     \<le> 1 / 200"
    by simp
  have "\<bar>avg_price pos
          - (avg_price cur * of_int (qty cur) + p * of_int q + ?S) / of_int (?Q1 + ?T)\<bar>
        \<le> of_nat (length bs) / 200 + 1 / 200"
    using bound shift by linarith
  with pos qpos b show ?case
    by (simp add: add.assoc mult.commute add_divide_distrib)
qed


text \<open>
  Claim C3, as amended. After a sequence of successful buys of one symbol that had no
  position before, the position holds the sum of the bought quantities, and its average
  price differs from the volume-weighted mean of the purchase prices by at most 0.005
  for each buy of the sequence: every buy rounds the running average to 2 decimal
  places. The average price is not the mean itself and it can depend on the order of the
  buys.
\<close>

theorem buy_all_average:
  assumes "buy_all st s bs = Some st'" and "bs \<noteq> []" and "map_of (holdings st) s = None"
  shows "\<exists>pos. map_of (holdings st') s = Some pos \<and>
           qty pos = (\<Sum>(q, p)\<leftarrow>bs. q) \<and>
           \<bar>avg_price pos - volume_weighted_mean bs\<bar> \<le> of_nat (length bs) / 200"
proof -
  from assms(2) obtain q p rest where bs: "bs = (q, p) # rest"
    by (cases bs) auto
  let ?st1 = "snd (buy_trade st s q p)"
  let ?cur1 = "\<lparr>qty = q, avg_price = round2 p\<rparr>"
  let ?S = "\<Sum>(q, p)\<leftarrow>rest. of_int q * p"
  let ?T = "\<Sum>(q, p)\<leftarrow>rest. q"
  from assms(1) bs have q1: "1 \<le> q"
    and bought: "is_bought (fst (buy_trade st s q p))"
    and rest: "buy_all ?st1 s rest = Some st'"
    by (auto simp: number_input_def split: if_splits)
  from buy_trade_position [OF bought] assms(3)
  have cur1: "map_of (holdings ?st1) s = Some ?cur1"
    by simp
  from q1 have Q1: "0 < qty ?cur1"
    by simp
  from buy_all_bound_from [OF rest cur1 Q1] obtain pos where
    pos: "map_of (holdings st') s = Some pos" and
    qpos: "qty pos = q + ?T" and
    bound: "\<bar>avg_price pos - (round2 p * of_int q + ?S) / of_int (q + ?T)\<bar>
              \<le> of_nat (length rest) / 200"
    by auto
  have T: "0 \<le> ?T"
    using buy_all_quantities [OF rest] by (rule sum_quantities_nonneg)
  have "\<bar>(round2 p * of_int q + ?S) / (of_int q + of_int ?T)
          - (p * of_int q + ?S) / (of_int q + of_int ?T)\<bar> \<le> 1 / 200"
    using round2_error [of p] q1 T by (intro mean_shift) simp_all
  then have shift:
    "\<bar>(round2 p * of_int q + ?S) / of_int (q + ?T)
       - (p * of_int q + ?S) / of_int (q + ?T)\<bar> \<le> 1 / 200"
    by simp
  have "\<bar>avg_price pos - (p * of_int q + ?S) / of_int (q + ?T)\<bar>
        \<le> of_nat (length rest) / 200 + 1 / 200"
    using bound shift by linarith
  moreover have "volume_weighted_mean bs = (p * of_int q + ?S) / of_int (q + ?T)"
    by (simp add: volume_weighted_mean_def bs mult.commute)
  moreover have "length bs = Suc (length rest)"
    using bs by simp
  moreover have "(\<Sum>(q, p)\<leftarrow>bs. q) = q + ?T"
    using bs by simp
  ultimately show ?thesis
    using pos qpos by (simp add: add_divide_distrib)
qed

text \<open>The scenario of the specification: five shares at 132.50, five more at 150.00.\<close>

lemma buy_all_scenario:
  "buy_all session_defaults ''AAPL'' [(5, 265 / 2), (5, 150)]
     = Some \<lparr>user = None, cash = 17175 / 2,
             holdings = [(''AAPL'', \<lparr>qty = 10, avg_price = 565 / 4\<rparr>)], watchlist = []\<rparr>"
  by code_simp

theorem buy_all_average_witness:
  "buy_all session_defaults ''AAPL'' [(5, 265 / 2), (5, 150)]
     = Some \<lparr>user = None, cash = 17175 / 2,
             holdings = [(''AAPL'', \<lparr>qty = 10, avg_price = 565 / 4\<rparr>)], watchlist = []\<rparr> \<and>
   [(5, 265 / 2), (5, 150 :: rat)] \<noteq> ([] :: (int \<times> rat) list) \<and>
   map_of (holdings session_defaults) ''AAPL'' = None \<and>
   volume_weighted_mean [(5, 265 / 2), (5, 150)] = 565 / 4 \<and>
   (\<exists>pos. map_of (holdings \<lparr>user = None, cash = 17175 / 2,
                             holdings = [(''AAPL'', \<lparr>qty = 10, avg_price = 565 / 4\<rparr>)],
                             watchlist = []\<rparr>) ''AAPL'' = Some pos \<and>
          qty pos = 10 \<and>
          \<bar>avg_price pos - volume_weighted_mean [(5, 265 / 2), (5, 150)]\<bar> \<le> 2 / 200)"
proof -
  have n: "map_of (holdings session_defaults) ''AAPL'' = None"
    by (simp add: session_defaults_def)
  have v: "volume_weighted_mean [(5, 265 / 2), (5, 150)] = 565 / 4"
    by (simp add: volume_weighted_mean_def)
  show ?thesis
    using buy_all_average [OF buy_all_scenario _ n] n v buy_all_scenario
    by simp
qed

text \<open>
  The claim as stated fails: one share at 1.004 and one at 1.007 have the mean 1.0055,
  and the stored average price is 1.00 in this order and 1.01 in the other.
\<close>

theorem buy_order_counterexample:
  "buy_all session_defaults ''X'' [(1, 251 / 250), (1, 1007 / 1000)]
     = Some \<lparr>user = None, cash = 9997989 / 1000,
             holdings = [(''X'', \<lparr>qty = 2, avg_price = 1\<rparr>)], watchlist = []\<rparr> \<and>
   buy_all session_defaults ''X'' [(1, 1007 / 1000), (1, 251 / 250)]
     = Some \<lparr>user = None, cash = 9997989 / 1000,
             holdings = [(''X'', \<lparr>qty = 2, avg_price = 101 / 100\<rparr>)], watchlist = []\<rparr> \<and>
   volume_weighted_mean [(1, 251 / 250), (1, 1007 / 1000)] = 2011 / 2000 \<and>
   volume_weighted_mean [(1, 1007 / 1000), (1, 251 / 250)] = 2011 / 2000"
  by code_simp

section \<open>Selling\<close>


text \<open>On the Sell page the trade runs with the selected symbol and the last close.\<close>

lemma sell_page_trade:
  "require_login st \<Longrightarrow> clicked \<Longrightarrow> map_of (holdings st) sel = Some cur \<Longrightarrow>
   fetch_history yfs sel ''5d'' ''1d'' = Some hist \<Longrightarrow>
   iloc_last (close_col hist) = Inr price \<Longrightarrow>
   sell_page st sel n clicked yfs = sell_trade st sel n price"
  by (auto simp: sell_page_def)

text \<open>
  Claim C4. A sell of a held symbol with a quantity between 1 and the held quantity
  succeeds; the cash is credited by exactly quantity times unit price; the position of
  the symbol is removed when the whole quantity is sold, and otherwise keeps its average
  price with the quantity decreased by the sold one; every other holding, the watchlist
  and the user are unchanged.
\<close>

theorem sell_trade_effect:
  assumes "map_of (holdings st) sel = Some cur" and "1 \<le> n" and "n \<le> qty cur"
  shows "fst (sell_trade st sel n p) = Shown (Sold n sel p (p * of_int n)) \<and>
         cash (snd (sell_trade st sel n p)) = cash st + of_int n * p \<and>
         map_of (holdings (snd (sell_trade st sel n p))) sel =
           (if n = qty cur then None else Some (cur\<lparr>qty := qty cur - n\<rparr>)) \<and>
         (\<forall>s. s \<noteq> sel \<longrightarrow>
            map_of (holdings (snd (sell_trade st sel n p))) s = map_of (holdings st) s) \<and>
         watchlist (snd (sell_trade st sel n p)) = watchlist st \<and>
         user (snd (sell_trade st sel n p)) = user st"
  using assms
  by (auto simp: sell_trade_def Let_def update_conv' delete_conv')

text \<open>
  The scenario of the specification: ten shares bought at 132.50 and 150.00 are all sold
  at 160.00; the position is removed, the other holding and the watchlist stay.
\<close>

theorem sell_trade_effect_witness:
  "map_of (holdings \<lparr>user = Some ''u'', cash = 17175 / 2,
                     holdings = [(''AAPL'', \<lparr>qty = 10, avg_price = 565 / 4\<rparr>),
                                 (''B'', \<lparr>qty = 1, avg_price = 7\<rparr>)],
                     watchlist = [''C'']\<rparr>) ''AAPL''
     = Some \<lparr>qty = 10, avg_price = 565 / 4\<rparr> \<and>
   (1 :: int) \<le> 10 \<and> 10 \<le> qty \<lparr>qty = 10, avg_price = 565 / 4\<rparr> \<and>
   sell_trade \<lparr>user = Some ''u'', cash = 17175 / 2,
               holdings = [(''AAPL'', \<lparr>qty = 10, avg_price = 565 / 4\<rparr>),
                           (''B'', \<lparr>qty = 1, avg_price = 7\<rparr>)],
               watchlist = [''C'']\<rparr> ''AAPL'' 10 160
     = (Shown (Sold 10 ''AAPL'' 160 1600),
        \<lparr>user = Some ''u'', cash = 20375 / 2,
         holdings = [(''B'', \<lparr>qty = 1, avg_price = 7\<rparr>)], watchlist = [''C'']\<rparr>) \<and>
   map_of (holdings (snd (sell_trade \<lparr>user = Some ''u'', cash = 17175 / 2,
               holdings = [(''AAPL'', \<lparr>qty = 10, avg_price = 565 / 4\<rparr>),
                           (''B'', \<lparr>qty = 1, avg_price = 7\<rparr>)],
               watchlist = [''C'']\<rparr> ''AAPL'' 10 160))) ''AAPL'' = None"
  using sell_trade_effect
          [of "\<lparr>user = Some ''u'', cash = 17175 / 2,
                holdings = [(''AAPL'', \<lparr>qty = 10, avg_price = 565 / 4\<rparr>),
                            (''B'', \<lparr>qty = 1, avg_price = 7\<rparr>)],
                watchlist = [''C'']\<rparr>" "''AAPL''" "\<lparr>qty = 10, avg_price = 565 / 4\<rparr>" 10 160]
  by (simp add: sell_trade_def Let_def)

lemma number_input_value_in_range:
  "number_input lo hi v \<Longrightarrow> number_input lo hi (number_input_value lo hi v e)"
  by (simp add: number_input_value_def)




section \<open>The navigation dispatch\<close>

text \<open>
  Claim C9. The last branch of the page dispatch tests the name \<open>nav_choice\<close>, which
  no statement of the script binds: whatever page the sidebar returns, the dispatch never
  enters the Watchlist block, and with the page Watchlist it raises NameError.
\<close>

theorem watchlist_branch_unreachable:
  "dispatch (module_names page username) \<noteq> Inr Watchlist_block \<and>
   dispatch (module_names ''Watchlist'' username) = Inl NameError"
  by (auto simp: dispatch_def module_names_def)

section \<open>Holdings under runs of the script\<close>

lemma in_set_updateD: "h \<in> set (AList.update k v al) \<Longrightarrow> h = (k, v) \<or> h \<in> set al"
  by (induction al) (auto split: if_splits)

lemma set_delete: "set (AList.delete k al) = {h \<in> set al. fst h \<noteq> k}"
  by (auto simp: AList.delete_eq)

lemma buy_trade_positive:
  assumes "\<forall>h\<in>set (holdings st). 0 < qty (snd h)" and "1 \<le> n"
  shows "\<forall>h\<in>set (holdings (snd (buy_trade st s n p))). 0 < qty (snd h)"
proof (cases "map_of (holdings st) s")
  case None
  then show ?thesis
    using assms
    by (auto simp: buy_trade_def Let_def dest!: in_set_updateD)
next
  case (Some cur)
  then have "(s, cur) \<in> set (holdings st)"
    by (rule map_of_SomeD)
  with assms have pos: "0 < qty cur + n"
    by fastforce
  show ?thesis
    using assms Some pos
    by (auto simp: buy_trade_def Let_def dest!: in_set_updateD)
qed

lemma search_buy_trade_holdings:
  "holdings (snd (search_buy_trade st s n p)) = holdings (snd (buy_trade st s n p))"
  by (simp add: search_buy_trade_def buy_trade_def Let_def split: option.splits)

lemma sell_trade_positive:
  assumes "\<forall>h\<in>set (holdings st). 0 < qty (snd h)"
    and "map_of (holdings st) sel = Some cur" and "n \<le> qty cur"
  shows "\<forall>h\<in>set (holdings (snd (sell_trade st sel n p))). 0 < qty (snd h)"
  using assms
  by (auto simp: sell_trade_def Let_def set_delete dest!: in_set_updateD)

lemma buy_page_holdings:
  "holdings (snd (buy_page st t n c yfs)) = holdings st \<or>
   (\<exists>p. holdings (snd (buy_page st t n c yfs)) = holdings (snd (buy_trade st (upper t) n p)))"
  by (auto simp: buy_page_def Let_def split: option.splits sum.splits)

lemma sell_page_holdings:
  "holdings (snd (sell_page st sel n c yfs)) = holdings st \<or>
   (\<exists>p. holdings (snd (sell_page st sel n c yfs)) = holdings (snd (sell_trade st sel n p)))"
  by (auto simp: sell_page_def Let_def split: option.splits sum.splits)

lemma search_page_holdings:
  "holdings (snd (search_page st t period interval lookup a n b yfs)) = holdings st \<or>
   (\<exists>p. holdings (snd (search_page st t period interval lookup a n b yfs))
          = holdings (snd (buy_trade st (upper t) n p)))"
  by (auto simp: search_page_def search_buy_def search_add_to_watchlist_def Let_def
                 search_buy_trade_holdings
           simp: search_buy_trade_def buy_trade_def
           split: option.splits sum.splits)


lemma login_page_frame:
  "holdings (snd (login_page st u c)) = holdings st \<and>
   watchlist (snd (login_page st u c)) = watchlist st"
  by (simp add: login_page_def)

lemma logout_frame:
  "holdings (snd (logout st)) = holdings st \<and> watchlist (snd (logout st)) = watchlist st"
  by (simp add: logout_def)

lemma remove_buttons_holdings:
  "holdings (snd (remove_buttons pressed xs st)) = holdings st"
  by (induction xs) (auto split: sum.splits)

lemma watchlist_page_holdings:
  "holdings (snd (watchlist_page st t a pressed)) = holdings st"
  by (simp add: watchlist_page_def watchlist_add_def Let_def remove_buttons_holdings)

lemma buy_page_positive:
  assumes "\<forall>h\<in>set (holdings st). 0 < qty (snd h)" and "1 \<le> n"
  shows "\<forall>h\<in>set (holdings (snd (buy_page st t n c yfs))). 0 < qty (snd h)"
proof -
  consider "holdings (snd (buy_page st t n c yfs)) = holdings st"
    | p where "holdings (snd (buy_page st t n c yfs))
                 = holdings (snd (buy_trade st (upper t) n p))"
    using buy_page_holdings by blast
  then show ?thesis
  proof cases
    case 1
    then show ?thesis using assms by simp
  next
    case 2
    then show ?thesis using buy_trade_positive [OF assms] by simp
  qed
qed

lemma search_page_positive:
  assumes "\<forall>h\<in>set (holdings st). 0 < qty (snd h)" and "1 \<le> n"
  shows "\<forall>h\<in>set (holdings (snd (search_page st t period interval lookup a n b yfs))).
           0 < qty (snd h)"
proof -
  consider "holdings (snd (search_page st t period interval lookup a n b yfs)) = holdings st"
    | p where "holdings (snd (search_page st t period interval lookup a n b yfs))
                 = holdings (snd (buy_trade st (upper t) n p))"
    using search_page_holdings by blast
  then show ?thesis
  proof cases
    case 1
    then show ?thesis using assms by simp
  next
    case 2
    then show ?thesis using buy_trade_positive [OF assms] by simp
  qed
qed

lemma sell_page_positive:
  assumes "\<forall>h\<in>set (holdings st). 0 < qty (snd h)"
    and "map_of (holdings st) sel = Some cur" and "n \<le> qty cur"
  shows "\<forall>h\<in>set (holdings (snd (sell_page st sel n c yfs))). 0 < qty (snd h)"
proof -
  consider "holdings (snd (sell_page st sel n c yfs)) = holdings st"
    | p where "holdings (snd (sell_page st sel n c yfs))
                 = holdings (snd (sell_trade st sel n p))"
    using sell_page_holdings by blast
  then show ?thesis
  proof cases
    case 1
    then show ?thesis using assms by simp
  next
    case 2
    then show ?thesis using sell_trade_positive [OF assms] by simp
  qed
qed

lemma sell_page_no_position:
  "map_of (holdings st) sel = None \<Longrightarrow> snd (sell_page st sel n c yfs) = st"
  by (simp add: sell_page_def)

lemma app_step_positive:
  assumes "\<forall>h\<in>set (holdings st). 0 < qty (snd h)"
  shows "\<forall>h\<in>set (holdings (app_step st ev)). 0 < qty (snd h)"
proof (cases ev)
  case (Login_run u c)
  with assms show ?thesis
    by (simp add: app_step_def login_page_frame)
next
  case Logout_click
  with assms show ?thesis
    by (simp add: app_step_def logout_frame)
next
  case (Buy_run t n c yfs)
  with assms buy_page_positive [OF assms, of n t c yfs] show ?thesis
    by (simp add: app_step_def number_input_def)
next
  case (Sell_run sel n c yfs)
  show ?thesis
  proof (cases "map_of (holdings st) sel")
    case None
    with assms show ?thesis
      unfolding Sell_run app_step_def by (simp add: sell_page_no_position)
  next
    case (Some cur)
    with assms sell_page_positive [OF assms Some, of n c yfs] show ?thesis
      unfolding Sell_run app_step_def by (auto simp: number_input_def)
  qed
next
  case (Search_run t period interval lookup a n b yfs)
  with assms search_page_positive [OF assms, of n t period interval lookup a b yfs]
  show ?thesis
    by (simp add: app_step_def number_input_def)
next
  case (Watchlist_run t a pressed)
  with assms show ?thesis
    by (simp add: app_step_def watchlist_page_holdings)
qed

lemma buy_trade_distinct:
  "distinct (map fst (holdings st)) \<Longrightarrow>
   distinct (map fst (holdings (snd (buy_trade st s n p))))"
  by (auto simp: buy_trade_def Let_def distinct_update split: option.splits)

lemma sell_trade_distinct:
  "distinct (map fst (holdings st)) \<Longrightarrow>
   distinct (map fst (holdings (snd (sell_trade st s n p))))"
  by (auto simp: sell_trade_def Let_def distinct_update distinct_delete split: option.splits)

lemma app_step_distinct_keys:
  assumes "distinct (map fst (holdings st))"
  shows "distinct (map fst (holdings (app_step st ev)))"
proof (cases ev)
  case (Login_run u c)
  with assms show ?thesis
    by (simp add: app_step_def login_page_frame)
next
  case Logout_click
  with assms show ?thesis
    by (simp add: app_step_def logout_frame)
next
  case (Buy_run t n c yfs)
  have "distinct (map fst (holdings (snd (buy_page st t n c yfs))))"
    using buy_page_holdings [of st t n c yfs] assms buy_trade_distinct [OF assms]
    by (elim disjE exE) simp_all
  with Buy_run assms show ?thesis
    by (simp add: app_step_def)
next
  case (Sell_run sel n c yfs)
  have "distinct (map fst (holdings (snd (sell_page st sel n c yfs))))"
    using sell_page_holdings [of st sel n c yfs] assms sell_trade_distinct [OF assms]
    by (elim disjE exE) simp_all
  with Sell_run assms show ?thesis
    by (simp add: app_step_def)
next
  case (Search_run t period interval lookup a n b yfs)
  have "distinct (map fst (holdings (snd (search_page st t period interval lookup a n b yfs))))"
    using search_page_holdings [of st t period interval lookup a n b yfs] assms
      buy_trade_distinct [OF assms]
    by (elim disjE exE) simp_all
  with Search_run assms show ?thesis
    by (simp add: app_step_def)
next
  case (Watchlist_run t a pressed)
  with assms show ?thesis
    by (simp add: app_step_def watchlist_page_holdings)
qed

lemma run_snoc: "run (evs @ [ev]) = app_step (run evs) ev"
  by (simp add: run_def)

lemma run_Nil: "run [] = session_defaults"
  by (simp add: run_def)

text \<open>
  Claim C6. After every sequence of runs of the script from the session defaults (logins,
  logouts, buys, sells, searches with their buys, watchlist runs, each with values its
  widgets can return), every position stored in holdings has a quantity strictly greater
  than 0, and no symbol has two positions: a symbol has a position exactly when its held
  quantity is positive.
\<close>

theorem positions_positive:
  "(\<forall>h\<in>set (holdings (run evs)). 0 < qty (snd h)) \<and>
   (\<forall>s pos. map_of (holdings (run evs)) s = Some pos \<longrightarrow> 0 < qty pos) \<and>
   distinct (map fst (holdings (run evs)))"
proof -
  have inv: "\<forall>h\<in>set (holdings (run evs)). 0 < qty (snd h)"
  proof (induction evs rule: rev_induct)
    case Nil
    show ?case
      by (simp add: run_Nil session_defaults_def)
  next
    case (snoc ev evs)
    then show ?case
      unfolding run_snoc by (rule app_step_positive)
  qed
  moreover have "0 < qty pos" if "map_of (holdings (run evs)) s = Some pos" for s pos
    using inv map_of_SomeD [OF that] by fastforce
  moreover have "distinct (map fst (holdings (run evs)))"
  proof (induction evs rule: rev_induct)
    case Nil
    show ?case
      by (simp add: run_Nil session_defaults_def)
  next
    case (snoc ev evs)
    then show ?case
      unfolding run_snoc by (rule app_step_distinct_keys)
  qed
  ultimately show ?thesis
    by blast
qed

text \<open>A login and a buy of five shares at 132.50.\<close>

lemma run_login_buy:
  "run [Login_run ''u '' True, Buy_run ''aapl'' 5 True (one_close (265 / 2))]
     = \<lparr>user = Some ''u'', cash = 18675 / 2,
        holdings = [(''AAPL'', \<lparr>qty = 5, avg_price = 265 / 2\<rparr>)], watchlist = []\<rparr>"
  by code_simp

theorem positions_positive_witness:
  "(''AAPL'', \<lparr>qty = 5, avg_price = 265 / 2\<rparr>)
     \<in> set (holdings (run [Login_run ''u '' True, Buy_run ''aapl'' 5 True (one_close (265 / 2))])) \<and>
   map_of (holdings (run [Login_run ''u '' True, Buy_run ''aapl'' 5 True (one_close (265 / 2))]))
     ''AAPL'' = Some \<lparr>qty = 5, avg_price = 265 / 2\<rparr> \<and>
   0 < qty \<lparr>qty = 5, avg_price = 265 / 2\<rparr>"
  using positions_positive
          [of "[Login_run ''u '' True, Buy_run ''aapl'' 5 True (one_close (265 / 2))]"]
  unfolding run_login_buy by simp

section \<open>Net worth on the dashboard\<close>

lemma foldl_plus: "foldl (\<lambda>total h. total + f h) a xs = a + sum_list (map f xs)"
  by (induction xs arbitrary: a) (simp_all add: add.assoc)

lemma round2_zero: "round2 0 = 0"
  using round2_cents [of 0] by simp

lemma fetch_quote_price: "fetch_quote yfs s = Some q \<Longrightarrow> \<exists>x. q_price q = round2 x"
  by (auto simp: fetch_quote_def Let_def split: option.splits if_splits sum.splits)

lemma holding_value_eq:
  "holding_value yfs h =
     (case fetch_quote yfs (fst h) of
        None \<Rightarrow> 0
      | Some q \<Rightarrow> of_int (qty (snd h)) * q_price q)"
proof (cases h)
  case (Pair symb pos)
  show ?thesis
  proof (cases "fetch_quote yfs symb")
    case None
    with Pair show ?thesis
      by (simp add: holding_value_def round2_zero)
  next
    case (Some q)
    then obtain x where "q_price q = round2 x"
      using fetch_quote_price by blast
    with Some Pair show ?thesis
      by (simp add: holding_value_def round2_zero round2_times_int mult.commute)
  qed
qed

text \<open>
  Claim C7. For every session state and every market, the total net worth of the
  dashboard is the cash plus the sum over the holdings of quantity times the current
  price of the quote, where a holding whose quote is unavailable contributes 0 instead of
  making the computation fail.
\<close>

theorem net_worth:
  "total_value yfs st =
     cash st + (\<Sum>h\<leftarrow>holdings st.
                  case fetch_quote yfs (fst h) of
                    None \<Rightarrow> 0
                  | Some q \<Rightarrow> of_int (qty (snd h)) * q_price q) \<and>
   dashboard_page st yfs =
     (if require_login st then Inr (total_value yfs st) else Inl (Shown_stop Please_log_in))"
  by (simp add: total_value_def foldl_plus holding_value_eq dashboard_page_def)


text \<open>Three shares quoted at 2.00 and two shares of a symbol without data.\<close>

theorem net_worth_witness:
  "fetch_quote (listed [(''A'', [503 / 500, 501 / 250])]) ''A''
     = Some \<lparr>q_symbol = ''A'', q_price = 2, q_change = 1, q_pct = 9940 / 100, q_name = []\<rparr> \<and>
   fetch_quote (listed [(''A'', [503 / 500, 501 / 250])]) ''B'' = None \<and>
   total_value (listed [(''A'', [503 / 500, 501 / 250])])
     \<lparr>user = Some ''u'', cash = 100,
      holdings = [(''A'', \<lparr>qty = 3, avg_price = 1\<rparr>), (''B'', \<lparr>qty = 2, avg_price = 7\<rparr>)],
      watchlist = []\<rparr> = 106"
proof -
  have a: "fetch_quote (listed [(''A'', [503 / 500, 501 / 250])]) ''A''
     = Some \<lparr>q_symbol = ''A'', q_price = 2, q_change = 1, q_pct = 9940 / 100, q_name = []\<rparr>"
    by code_simp
  have b: "fetch_quote (listed [(''A'', [503 / 500, 501 / 250])]) ''B'' = None"
    by code_simp
  show ?thesis
    using net_worth [of "listed [(''A'', [503 / 500, 501 / 250])]"
            "\<lparr>user = Some ''u'', cash = 100,
              holdings = [(''A'', \<lparr>qty = 3, avg_price = 1\<rparr>), (''B'', \<lparr>qty = 2, avg_price = 7\<rparr>)],
              watchlist = []\<rparr>"]
    by (simp add: a b)
qed

section \<open>The watchlist\<close>

lemma remove_buttons_watchlist:
  "watchlist (snd (remove_buttons pressed xs st)) =
     (case find pressed xs of None \<Rightarrow> watchlist st | Some x \<Rightarrow> remove1 x (watchlist st))"
  by (induction xs) (auto simp: list_remove_def remove1_idem)

lemma remove_buttons_none:
  "\<forall>x\<in>set xs. \<not> pressed x \<Longrightarrow> remove_buttons pressed xs st = (Silent, st)"
  by (induction xs) auto

lemma watchlist_add_watchlist:
  "watchlist (snd (watchlist_add st s)) =
     (if s \<noteq> [] \<and> s \<notin> set (watchlist st) then watchlist st @ [s] else watchlist st)"
  by (simp add: watchlist_add_def)

lemma search_add_watchlist:
  "watchlist (snd (search_add_to_watchlist st s)) =
     (if upper s \<notin> set (watchlist st) then watchlist st @ [upper s] else watchlist st)"
  by (simp add: search_add_to_watchlist_def Let_def)

lemma buy_trade_watchlist: "watchlist (snd (buy_trade st s n p)) = watchlist st"
  by (simp add: buy_trade_def Let_def split: option.splits)

lemma search_buy_watchlist: "watchlist (snd (search_buy st s n yfs)) = watchlist st"
  by (simp add: search_buy_def search_buy_trade_def Let_def split: option.splits sum.splits)

lemma buy_page_watchlist: "watchlist (snd (buy_page st t n c yfs)) = watchlist st"
  by (simp add: buy_page_def buy_trade_watchlist Let_def split: option.splits sum.splits)

lemma sell_trade_watchlist: "watchlist (snd (sell_trade st s n p)) = watchlist st"
  by (simp add: sell_trade_def Let_def split: option.splits)

lemma sell_page_watchlist: "watchlist (snd (sell_page st s n c yfs)) = watchlist st"
  by (simp add: sell_page_def sell_trade_watchlist split: option.splits sum.splits)

text \<open>What one run does to the watchlist: it may append one new upper-case symbol, and
  then it may remove one entry.\<close>

lemma app_step_watchlist:
  "\<exists>w. (w = watchlist st \<or> (\<exists>t. w = watchlist st @ [upper t] \<and> upper t \<notin> set (watchlist st))) \<and>
       (watchlist (app_step st ev) = w \<or> (\<exists>x. watchlist (app_step st ev) = remove1 x w))"
proof (cases ev)
  case (Login_run u c)
  then have "watchlist (app_step st ev) = watchlist st"
    by (simp add: app_step_def login_page_frame)
  then show ?thesis
    by auto
next
  case Logout_click
  then have "watchlist (app_step st ev) = watchlist st"
    by (simp add: app_step_def logout_frame)
  then show ?thesis
    by auto
next
  case (Buy_run t n c yfs)
  then have "watchlist (app_step st ev) = watchlist st"
    by (simp add: app_step_def buy_page_watchlist)
  then show ?thesis
    by auto
next
  case (Sell_run sel n c yfs)
  then have "watchlist (app_step st ev) = watchlist st"
    by (simp add: app_step_def sell_page_watchlist)
  then show ?thesis
    by auto
next
  case (Search_run t period interval lookup a n b yfs)
  have "watchlist (snd (search_page st t period interval lookup a n b yfs)) = watchlist st \<or>
        (watchlist (snd (search_page st t period interval lookup a n b yfs))
           = watchlist st @ [upper t] \<and> upper t \<notin> set (watchlist st))"
    by (simp add: search_page_def Let_def search_buy_watchlist search_add_watchlist upper_idem
             split: option.splits)
  with Search_run have "watchlist (app_step st ev) = watchlist st \<or>
        (watchlist (app_step st ev) = watchlist st @ [upper t] \<and> upper t \<notin> set (watchlist st))"
    by (auto simp: app_step_def)
  then show ?thesis
    by auto
next
  case (Watchlist_run t a pressed)
  define st1 where "st1 = snd (if a then watchlist_add st (upper t) else (Silent, st))"
  have w1: "watchlist st1 = watchlist st \<or>
            (watchlist st1 = watchlist st @ [upper t] \<and> upper t \<notin> set (watchlist st))"
    by (simp add: st1_def watchlist_add_watchlist)
  have "watchlist (snd (watchlist_page st t a pressed)) = watchlist st \<or>
        watchlist (snd (watchlist_page st t a pressed)) = watchlist st1 \<or>
        (\<exists>x. watchlist (snd (watchlist_page st t a pressed)) = remove1 x (watchlist st1))"
    by (auto simp: watchlist_page_def Let_def st1_def remove_buttons_watchlist
             split: option.splits)
  with Watchlist_run have
    "watchlist (app_step st ev) = watchlist st \<or>
     watchlist (app_step st ev) = watchlist st1 \<or>
     (\<exists>x. watchlist (app_step st ev) = remove1 x (watchlist st1))"
    by (auto simp: app_step_def)
  with w1 show ?thesis
    by metis
qed

lemma app_step_distinct_watchlist:
  assumes "distinct (watchlist st)"
  shows "distinct (watchlist (app_step st ev))"
proof -
  obtain w where w: "w = watchlist st \<or>
        (\<exists>t. w = watchlist st @ [upper t] \<and> upper t \<notin> set (watchlist st))"
      and s: "watchlist (app_step st ev) = w \<or> (\<exists>x. watchlist (app_step st ev) = remove1 x w)"
    using app_step_watchlist by blast
  from w assms have "distinct w"
    by auto
  with s show ?thesis
    by auto
qed

lemma app_step_upper_watchlist:
  assumes "\<forall>s\<in>set (watchlist st). upper s = s"
  shows "\<forall>s\<in>set (watchlist (app_step st ev)). upper s = s"
proof -
  obtain w where w: "w = watchlist st \<or>
        (\<exists>t. w = watchlist st @ [upper t] \<and> upper t \<notin> set (watchlist st))"
      and s: "watchlist (app_step st ev) = w \<or> (\<exists>x. watchlist (app_step st ev) = remove1 x w)"
    using app_step_watchlist by blast
  from w assms have "\<forall>s\<in>set w. upper s = s"
    by (auto simp: upper_idem)
  with s show ?thesis
    by (auto dest: notin_set_remove1)
qed


lemma remove_buttons_cong:
  "\<forall>x\<in>set xs. pressed x = pressed' x \<Longrightarrow>
   remove_buttons pressed xs st = remove_buttons pressed' xs st"
  by (induction xs) auto

lemma find_pressed: "find P xs = Some x \<Longrightarrow> P x \<and> x \<in> set xs"
  by (induction xs) (auto split: if_splits)

lemma watchlist_page_watchlist:
  "watchlist (snd (watchlist_page st t a pressed)) =
     (if \<not> require_login st then watchlist st
      else case find pressed
                  (watchlist (snd (if a then watchlist_add st (upper t) else (Silent, st)))) of
             None \<Rightarrow> watchlist (snd (if a then watchlist_add st (upper t) else (Silent, st)))
           | Some x \<Rightarrow>
               remove1 x
                 (watchlist (snd (if a then watchlist_add st (upper t) else (Silent, st)))))"
  by (simp add: watchlist_page_def Let_def remove_buttons_watchlist)

lemma app_step_watchlist_pinned:
  "\<exists>w. (w = watchlist st \<or> (\<exists>t. w = watchlist st @ [upper t] \<and> upper t \<notin> set (watchlist st))) \<and>
       (watchlist (app_step st ev) = w \<or>
        (\<exists>x t a pressed. ev = Watchlist_run t a pressed \<and> pressed x \<and> x \<in> set w \<and>
           watchlist (app_step st ev) = remove1 x w))"
proof (cases ev)
  case (Login_run u c)
  then have "watchlist (app_step st ev) = watchlist st"
    by (simp add: app_step_def login_page_frame)
  then show ?thesis
    by auto
next
  case Logout_click
  then have "watchlist (app_step st ev) = watchlist st"
    by (simp add: app_step_def logout_frame)
  then show ?thesis
    by auto
next
  case (Buy_run t n c yfs)
  then have "watchlist (app_step st ev) = watchlist st"
    by (simp add: app_step_def buy_page_watchlist)
  then show ?thesis
    by auto
next
  case (Sell_run sel n c yfs)
  then have "watchlist (app_step st ev) = watchlist st"
    by (simp add: app_step_def sell_page_watchlist)
  then show ?thesis
    by auto
next
  case (Search_run t period interval lookup a n b yfs)
  have "watchlist (snd (search_page st t period interval lookup a n b yfs)) = watchlist st \<or>
        (watchlist (snd (search_page st t period interval lookup a n b yfs))
           = watchlist st @ [upper t] \<and> upper t \<notin> set (watchlist st))"
    by (simp add: search_page_def Let_def search_buy_watchlist search_add_watchlist upper_idem
             split: option.splits)
  with Search_run have "watchlist (app_step st ev) = watchlist st \<or>
        (watchlist (app_step st ev) = watchlist st @ [upper t] \<and> upper t \<notin> set (watchlist st))"
    by (auto simp: app_step_def)
  then show ?thesis
    by auto
next
  case (Watchlist_run t a pressed)
  define w1 where
    "w1 = watchlist (snd (if a then watchlist_add st (upper t) else (Silent, st)))"
  have w1: "w1 = watchlist st \<or>
            (w1 = watchlist st @ [upper t] \<and> upper t \<notin> set (watchlist st))"
    by (simp add: w1_def watchlist_add_watchlist)
  have eq: "watchlist (snd (watchlist_page st t a pressed)) =
        (if \<not> require_login st then watchlist st
         else case find pressed w1 of None \<Rightarrow> w1 | Some x \<Rightarrow> remove1 x w1)"
    unfolding w1_def by (rule watchlist_page_watchlist)
  have page: "watchlist (snd (watchlist_page st t a pressed)) = watchlist st \<or>
        watchlist (snd (watchlist_page st t a pressed)) = w1 \<or>
        (\<exists>x. pressed x \<and> x \<in> set w1 \<and>
             watchlist (snd (watchlist_page st t a pressed)) = remove1 x w1)"
  proof (cases "find pressed w1")
    case None
    with eq show ?thesis
      by simp
  next
    case (Some x)
    with eq find_pressed [OF Some] show ?thesis
      by auto
  qed
  from Watchlist_run have step: "app_step st ev = st \<or>
      app_step st ev = snd (watchlist_page st t a pressed)"
    by (simp add: app_step_def)
  from step page have "watchlist (app_step st ev) = watchlist st \<or>
        watchlist (app_step st ev) = w1 \<or>
        (\<exists>x. pressed x \<and> x \<in> set w1 \<and> watchlist (app_step st ev) = remove1 x w1)"
    by auto
  with w1 Watchlist_run show ?thesis
    by blast
qed

text \<open>
  Claim C8, as amended. On the handlers: adding a symbol that is already in the watchlist
  changes nothing, on the Watchlist page and on the Search page, so adding a symbol twice
  leaves one entry; a new symbol goes to the end of the list. The Watchlist page has one
  Remove button for each entry and none for any other symbol: the entry of the first
  pressed button is removed, with no pressed button nothing is removed and nothing is
  shown, and what is pressed outside the list plays no part. No handler removes an absent
  symbol or returns a truth value; \<open>list.remove\<close> on an absent symbol would raise
  ValueError. After every sequence of runs from the session defaults the watchlist has
  no symbol twice; one run changes the list only by appending one new symbol at the end,
  and an entry leaves the list only in a run of the Watchlist page in which its Remove
  button is pressed. Whether the script reaches the Watchlist page is left out here.
\<close>

theorem watchlist_handlers:
  "(s \<in> set (watchlist st) \<longrightarrow> watchlist_add st s = (Shown Already_in_watchlist, st)) \<and>
   (upper s \<in> set (watchlist st) \<longrightarrow>
      search_add_to_watchlist st s = (Shown Already_in_watchlist, st)) \<and>
   watchlist (snd (watchlist_add st s)) =
     (if s \<noteq> [] \<and> s \<notin> set (watchlist st) then watchlist st @ [s] else watchlist st) \<and>
   watchlist (snd (search_add_to_watchlist st s)) =
     (if upper s \<notin> set (watchlist st) then watchlist st @ [upper s] else watchlist st) \<and>
   snd (watchlist_add (snd (watchlist_add st s)) s) = snd (watchlist_add st s) \<and>
   snd (search_add_to_watchlist (snd (search_add_to_watchlist st s)) s)
     = snd (search_add_to_watchlist st s) \<and>
   watchlist (snd (remove_buttons pressed (watchlist st) st)) =
     (case find pressed (watchlist st) of
        None \<Rightarrow> watchlist st
      | Some x \<Rightarrow> remove1 x (watchlist st)) \<and>
   ((\<forall>x\<in>set (watchlist st). \<not> pressed x) \<longrightarrow>
      remove_buttons pressed (watchlist st) st = (Silent, st)) \<and>
   ((\<forall>x\<in>set (watchlist st). pressed x = pressed' x) \<longrightarrow>
      remove_buttons pressed (watchlist st) st = remove_buttons pressed' (watchlist st) st) \<and>
   (s \<notin> set (watchlist st) \<longrightarrow> list_remove (watchlist st) s = Inl ValueError) \<and>
   distinct (watchlist (run evs)) \<and>
   (\<exists>w. (w = watchlist st \<or>
          (\<exists>t. w = watchlist st @ [upper t] \<and> upper t \<notin> set (watchlist st))) \<and>
        (watchlist (app_step st ev) = w \<or>
         (\<exists>x t a pressed. ev = Watchlist_run t a pressed \<and> pressed x \<and> x \<in> set w \<and>
            watchlist (app_step st ev) = remove1 x w)))"
proof -
  have "distinct (watchlist (run evs))"
  proof (induction evs rule: rev_induct)
    case Nil
    show ?case
      by (simp add: run_Nil session_defaults_def)
  next
    case (snoc ev evs)
    then show ?case
      unfolding run_snoc by (rule app_step_distinct_watchlist)
  qed
  moreover have "snd (watchlist_add (snd (watchlist_add st s)) s) = snd (watchlist_add st s)"
    by (simp add: watchlist_add_def)
  moreover have "snd (search_add_to_watchlist (snd (search_add_to_watchlist st s)) s)
     = snd (search_add_to_watchlist st s)"
    by (simp add: search_add_to_watchlist_def Let_def)
  moreover have "s \<in> set (watchlist st) \<longrightarrow> watchlist_add st s = (Shown Already_in_watchlist, st)"
    by (simp add: watchlist_add_def)
  moreover have "upper s \<in> set (watchlist st) \<longrightarrow>
      search_add_to_watchlist st s = (Shown Already_in_watchlist, st)"
    by (simp add: search_add_to_watchlist_def)
  moreover have "(\<forall>x\<in>set (watchlist st). \<not> pressed x) \<longrightarrow>
      remove_buttons pressed (watchlist st) st = (Silent, st)"
    by (simp add: remove_buttons_none)
  moreover have "(\<forall>x\<in>set (watchlist st). pressed x = pressed' x) \<longrightarrow>
      remove_buttons pressed (watchlist st) st = remove_buttons pressed' (watchlist st) st"
    using remove_buttons_cong by blast
  moreover have "s \<notin> set (watchlist st) \<longrightarrow> list_remove (watchlist st) s = Inl ValueError"
    by (simp add: list_remove_def)
  ultimately show ?thesis
    using app_step_watchlist_pinned [of st ev]
      remove_buttons_watchlist [of pressed "watchlist st" st]
      watchlist_add_watchlist [of st s] search_add_watchlist [of st s]
    by simp
qed

text \<open>A session state whose watchlist holds TSLA.\<close>

theorem watchlist_handlers_witness:
  "''TSLA'' \<in> set (watchlist \<lparr>user = Some ''u'', cash = 10000, holdings = [],
                               watchlist = [''TSLA'']\<rparr>) \<and>
   watchlist_add \<lparr>user = Some ''u'', cash = 10000, holdings = [], watchlist = [''TSLA'']\<rparr>
                 ''TSLA''
     = (Shown Already_in_watchlist,
        \<lparr>user = Some ''u'', cash = 10000, holdings = [], watchlist = [''TSLA'']\<rparr>) \<and>
   upper ''TSLA'' \<in> set (watchlist \<lparr>user = Some ''u'', cash = 10000, holdings = [],
                                     watchlist = [''TSLA'']\<rparr>) \<and>
   search_add_to_watchlist
       \<lparr>user = Some ''u'', cash = 10000, holdings = [], watchlist = [''TSLA'']\<rparr> ''TSLA''
     = (Shown Already_in_watchlist,
        \<lparr>user = Some ''u'', cash = 10000, holdings = [], watchlist = [''TSLA'']\<rparr>) \<and>
   ''TSLA'' \<noteq> ''AAPL'' \<and>
   remove_buttons (\<lambda>x. x = ''AAPL'') [''TSLA'']
       \<lparr>user = Some ''u'', cash = 10000, holdings = [], watchlist = [''TSLA'']\<rparr>
     = (Silent, \<lparr>user = Some ''u'', cash = 10000, holdings = [], watchlist = [''TSLA'']\<rparr>) \<and>
   remove_buttons (\<lambda>x. x = ''AAPL'') [''TSLA'']
       \<lparr>user = Some ''u'', cash = 10000, holdings = [], watchlist = [''TSLA'']\<rparr>
     = remove_buttons (\<lambda>x. False) [''TSLA'']
         \<lparr>user = Some ''u'', cash = 10000, holdings = [], watchlist = [''TSLA'']\<rparr> \<and>
   ''AAPL'' \<notin> set [''TSLA''] \<and>
   list_remove [''TSLA''] ''AAPL'' = Inl ValueError \<and>
   remove_buttons (\<lambda>x. x = ''TSLA'') [''TSLA'']
       \<lparr>user = Some ''u'', cash = 10000, holdings = [], watchlist = [''TSLA'']\<rparr>
     = (Shown_rerun (Removed ''TSLA''),
        \<lparr>user = Some ''u'', cash = 10000, holdings = [], watchlist = []\<rparr>)"
proof -
  have u: "upper ''TSLA'' = ''TSLA''" "upper ''AAPL'' = ''AAPL''"
    by code_simp+
  show ?thesis
    using watchlist_handlers
            [of "''TSLA''"
                "\<lparr>user = Some ''u'', cash = 10000, holdings = [], watchlist = [''TSLA'']\<rparr>"
                "\<lambda>x. x = ''AAPL''" "\<lambda>x. False" "[]" "Logout_click"]
          watchlist_handlers
            [of "''AAPL''"
                "\<lparr>user = Some ''u'', cash = 10000, holdings = [], watchlist = [''TSLA'']\<rparr>"
                "\<lambda>x. x = ''AAPL''" "\<lambda>x. False" "[]" "Logout_click"]
    by (simp add: u list_remove_def)
qed

text \<open>
  The claim as stated fails. With the page Watchlist chosen, the script stops at the
  page test with a NameError before the add handler: TSLA added twice leaves no entry,
  not one. And there is no removal of an absent symbol that returns false: the only
  removal in the code, \<open>list.remove\<close>, raises for it.
\<close>

theorem watchlist_page_counterexample:
  "watchlist_script \<lparr>user = Some ''u'', cash = 10000, holdings = [], watchlist = []\<rparr>
                    ''TSLA'' True (\<lambda>x. False)
     = ([Raised NameError],
        \<lparr>user = Some ''u'', cash = 10000, holdings = [], watchlist = []\<rparr>) \<and>
   watchlist (snd (watchlist_script
                    (snd (watchlist_script
                            \<lparr>user = Some ''u'', cash = 10000, holdings = [], watchlist = []\<rparr>
                            ''TSLA'' True (\<lambda>x. False)))
                    ''TSLA'' True (\<lambda>x. False))) = [] \<and>
   ''AAPL'' \<notin> set [''TSLA''] \<and>
   list_remove [''TSLA''] ''AAPL'' = Inl ValueError"
  by (simp add: watchlist_script_def sidebar_pages_def dispatch_def module_names_def
                list_remove_def)

section \<open>Upper-case symbols\<close>

lemma buy_trade_keys:
  "fst ` set (holdings (snd (buy_trade st s n p))) \<subseteq> insert s (fst ` set (holdings st))"
  by (auto simp: buy_trade_def Let_def dom_update split: option.splits if_splits)

lemma sell_trade_keys:
  "fst ` set (holdings (snd (sell_trade st s n p))) \<subseteq> fst ` set (holdings st)"
proof (cases "map_of (holdings st) s")
  case None
  then show ?thesis
    by (simp add: sell_trade_def)
next
  case (Some cur)
  then have "s \<in> fst ` set (holdings st)"
    by (metis domI dom_map_of_conv_image_fst)
  with Some show ?thesis
    using dom_delete_subset [of s "AList.update s (cur\<lparr>qty := 0\<rparr>) (holdings st)"]
    by (auto simp: sell_trade_def Let_def dom_update)
qed

lemma buy_keys_cases:
  assumes "H = holdings st \<or> (\<exists>p. H = holdings (snd (buy_trade st k n p)))"
  shows "fst ` set H \<subseteq> insert k (fst ` set (holdings st))"
  using assms
proof (elim disjE exE)
  assume "H = holdings st"
  then show ?thesis by auto
next
  fix p
  assume "H = holdings (snd (buy_trade st k n p))"
  then show ?thesis using buy_trade_keys [of st k n p] by simp
qed

lemma sell_keys_cases:
  assumes "H = holdings st \<or> (\<exists>p. H = holdings (snd (sell_trade st k n p)))"
  shows "fst ` set H \<subseteq> fst ` set (holdings st)"
  using assms
proof (elim disjE exE)
  assume "H = holdings st"
  then show ?thesis by auto
next
  fix p
  assume "H = holdings (snd (sell_trade st k n p))"
  then show ?thesis using sell_trade_keys [of st k n p] by simp
qed

lemma app_step_keys:
  "fst ` set (holdings (app_step st ev)) \<subseteq> fst ` set (holdings st) \<union> range upper"
proof (cases ev)
  case (Login_run u c)
  then show ?thesis
    by (simp add: app_step_def login_page_frame)
next
  case Logout_click
  then show ?thesis
    by (simp add: app_step_def logout_frame)
next
  case (Buy_run t n c yfs)
  have "fst ` set (holdings (snd (buy_page st t n c yfs)))
          \<subseteq> fst ` set (holdings st) \<union> range upper"
    using buy_keys_cases [OF buy_page_holdings [of st t n c yfs]] by auto
  with Buy_run show ?thesis
    by (simp add: app_step_def)
next
  case (Sell_run sel n c yfs)
  have "fst ` set (holdings (snd (sell_page st sel n c yfs)))
          \<subseteq> fst ` set (holdings st) \<union> range upper"
    using sell_keys_cases [OF sell_page_holdings [of st sel n c yfs]] by auto
  with Sell_run show ?thesis
    by (simp add: app_step_def)
next
  case (Search_run t period interval lookup a n b yfs)
  have "fst ` set (holdings (snd (search_page st t period interval lookup a n b yfs)))
          \<subseteq> fst ` set (holdings st) \<union> range upper"
    using buy_keys_cases [OF search_page_holdings [of st t period interval lookup a n b yfs]]
    by auto
  with Search_run show ?thesis
    by (simp add: app_step_def)
next
  case (Watchlist_run t a pressed)
  then show ?thesis
    by (simp add: app_step_def watchlist_page_holdings)
qed

lemma app_step_upper_holdings:
  assumes "\<forall>h\<in>set (holdings st). upper (fst h) = fst h"
  shows "\<forall>h\<in>set (holdings (app_step st ev)). upper (fst h) = fst h"
proof
  fix h
  assume "h \<in> set (holdings (app_step st ev))"
  then have "fst h \<in> fst ` set (holdings st) \<union> range upper"
    using app_step_keys [of st ev] by auto
  with assms show "upper (fst h) = fst h"
    by (auto simp: upper_idem)
qed

text \<open>
  Claim C10. After every sequence of runs from the session defaults, every key of
  holdings and every entry of the watchlist is its own upper-casing; and the Buy, Search
  and Watchlist pages upper-case the text input first, so two inputs with the same
  upper-casing give the same result and the same state.
\<close>

theorem symbols_upper_case:
  "(\<forall>h\<in>set (holdings (run evs)). upper (fst h) = fst h) \<and>
   (\<forall>s\<in>set (watchlist (run evs)). upper s = s) \<and>
   (upper a = upper b \<longrightarrow>
      buy_page st a n c yfs = buy_page st b n c yfs \<and>
      search_page st a period interval lookup add_clicked n c yfs
        = search_page st b period interval lookup add_clicked n c yfs \<and>
      watchlist_page st a c pressed = watchlist_page st b c pressed)"
proof -
  have "(\<forall>h\<in>set (holdings (run evs)). upper (fst h) = fst h) \<and>
        (\<forall>s\<in>set (watchlist (run evs)). upper s = s)"
  proof (induction evs rule: rev_induct)
    case Nil
    show ?case
      by (simp add: run_Nil session_defaults_def)
  next
    case (snoc ev evs)
    then show ?case
      unfolding run_snoc using app_step_upper_holdings app_step_upper_watchlist by blast
  qed
  moreover have "buy_page st a n c yfs = buy_page st b n c yfs" if "upper a = upper b"
    using that by (simp add: buy_page_def)
  moreover have "search_page st a period interval lookup add_clicked n c yfs
        = search_page st b period interval lookup add_clicked n c yfs" if "upper a = upper b"
    using that by (simp add: search_page_def)
  moreover have "watchlist_page st a c pressed = watchlist_page st b c pressed"
    if "upper a = upper b"
    using that by (simp add: watchlist_page_def)
  ultimately show ?thesis
    by blast
qed


lemma run_buy_watch:
  "run [Login_run ''u'' True, Buy_run ''aapl'' 5 True (one_close (265 / 2)),
        Watchlist_run ''tsla'' True (\<lambda>x. False)]
     = \<lparr>user = Some ''u'', cash = 18675 / 2,
        holdings = [(''AAPL'', \<lparr>qty = 5, avg_price = 265 / 2\<rparr>)], watchlist = [''TSLA'']\<rparr>"
  by code_simp

theorem symbols_upper_case_witness:
  "(''AAPL'', \<lparr>qty = 5, avg_price = 265 / 2\<rparr>)
     \<in> set (holdings (run [Login_run ''u'' True, Buy_run ''aapl'' 5 True (one_close (265 / 2)),
                            Watchlist_run ''tsla'' True (\<lambda>x. False)])) \<and>
   upper ''AAPL'' = ''AAPL'' \<and>
   ''TSLA'' \<in> set (watchlist (run [Login_run ''u'' True,
                                     Buy_run ''aapl'' 5 True (one_close (265 / 2)),
                                     Watchlist_run ''tsla'' True (\<lambda>x. False)])) \<and>
   upper ''TSLA'' = ''TSLA'' \<and>
   upper ''aapl'' = upper ''AaPl'' \<and>
   buy_page \<lparr>user = Some ''u'', cash = 10000, holdings = [], watchlist = []\<rparr>
            ''aapl'' 5 True (one_close (265 / 2))
     = buy_page \<lparr>user = Some ''u'', cash = 10000, holdings = [], watchlist = []\<rparr>
                ''AaPl'' 5 True (one_close (265 / 2))"
proof -
  have u: "upper ''aapl'' = upper ''AaPl''"
    by code_simp
  show ?thesis
    using symbols_upper_case
            [of "[Login_run ''u'' True, Buy_run ''aapl'' 5 True (one_close (265 / 2)),
                  Watchlist_run ''tsla'' True (\<lambda>x. False)]"
                "''aapl''" "''AaPl''"
                "\<lparr>user = Some ''u'', cash = 10000, holdings = [], watchlist = []\<rparr>"
                5 True "one_close (265 / 2)"]
    unfolding run_buy_watch by (simp add: u)
qed

end
